theory Spec2Isabelle
  imports Complex_Main
begin

section \<open>Python values\<close>

text \<open>
  A Python \<open>str\<close> is a sequence of Unicode code points; it is modelled as the list of
  those code points. ASCII literals of the source are written \<open>py ''...''\<close>; the
  Chinese literals are given by their code points, with a transliteration in the
  comment of each constant.
\<close>

type_synonym ustr = "nat list"

definition py :: "string \<Rightarrow> ustr" where
  "py s = map of_char s"

text \<open>
  A number of the source (\<open>int\<close> or finite \<open>float\<close>) is modelled by the rational it
  denotes; Python compares numbers by these exact values. The literals \<open>0.8\<close>,
  \<open>0.5\<close>, \<open>0.85\<close> and \<open>0.95\<close> denote the binary64 values nearest to them.
\<close>

definition lit_0_8 :: rat where
  "lit_0_8 = 3602879701896397 / 4503599627370496"

definition lit_0_5 :: rat where
  "lit_0_5 = 1 / 2"

definition lit_0_85 :: rat where
  "lit_0_85 = 7656119366529843 / 9007199254740992"

definition lit_0_95 :: rat where
  "lit_0_95 = 4278419646001971 / 4503599627370496"

text \<open>The exceptions the modelled code can raise.\<close>

datatype py_error =
  KeyError ustr | IndexError | OverflowError | UnicodeEncodeError | OperationalError

text \<open>
  A value stored in an entity's \<open>current\<close> dict or in the metadata: a string or an
  integer (the source stores both).
\<close>

datatype pyval = PStr ustr | PInt int

text \<open>
  A \<open>dict\<close> is an association list in insertion order, which is the order a Python
  \<open>for\<close> loop visits the keys in; \<open>map_of d k\<close> is the lookup. \<open>dict_set k v d\<close> is
  the assignment \<open>d[k] = v\<close>: an existing key keeps its place, a new key goes last.
\<close>

type_synonym ('k, 'v) dict = "('k \<times> 'v) list"

fun dict_set :: "'k \<Rightarrow> 'v \<Rightarrow> ('k, 'v) dict \<Rightarrow> ('k, 'v) dict" where
  "dict_set k v [] = [(k, v)]"
| "dict_set k v ((k', v') # d) =
     (if k' = k then (k, v) # d else (k', v') # dict_set k v d)"

text \<open>\<open>needle in haystack\<close> on two strings: \<open>needle\<close> occurs as a contiguous part.\<close>

fun starts_with :: "ustr \<Rightarrow> ustr \<Rightarrow> bool" where
  "starts_with [] _ = True"
| "starts_with (_ # _) [] = False"
| "starts_with (a # as) (b # bs) = (a = b \<and> starts_with as bs)"

fun contains :: "ustr \<Rightarrow> ustr \<Rightarrow> bool" where
  "contains needle [] = (needle = [])"
| "contains needle (c # cs) = (starts_with needle (c # cs) \<or> contains needle cs)"

section \<open>Data model\<close>

text \<open>
  The dicts of the source are records. A key that the source reads by subscript is
  a field; a key that it reads with \<open>get\<close> and a default, or whose presence it
  tests, is an optional field.
\<close>

record history_record =
  h_chapter :: int
  h_field :: ustr
  h_old :: pyval
  h_new :: pyval
  h_reason :: ustr

text \<open>An entity of the registry, with the keys \<open>update_state\<close> writes and reads.\<close>

record entity =
  ent_id :: ustr
  canonical_name :: ustr
  aliases :: "ustr list"
  tier :: ustr
  desc :: ustr
  current :: "(ustr, pyval) dict"
  history :: "history_record list"
  created_chapter :: int
  first_appearance :: ustr

record alias_entry =
  al_type :: ustr
  al_id :: ustr

type_synonym bucket = "(ustr, entity) dict"
type_synonym registry = "(ustr, bucket) dict"
type_synonym alias_idx = "(ustr, alias_entry list) dict"

record relationship_edge =
  e_from :: ustr
  e_to :: ustr
  e_type :: ustr
  e_description :: ustr
  e_chapter :: int
  e_created_at :: ustr

text \<open>
  The state document. Each top-level key may be absent (\<open>None\<close>): the source reads
  \<open>entities_v3\<close> and \<open>alias_index\<close> with \<open>get\<close>, tests \<open>relationships\<close> with \<open>in\<close>
  and subscripts \<open>metadata\<close>.
\<close>

record state =
  entities_v3 :: "registry option"
  alias_index :: "alias_idx option"
  relationships :: "relationship_edge list option"
  metadata :: "(ustr, pyval) dict option"

text \<open>
  The proposals of the extraction step. The confidence of an appeared entity is a
  \<open>float\<close>, given by its exact value.
\<close>

record appeared_entity =
  ae_id :: ustr
  ae_type :: ustr
  ae_mentions :: "ustr list"
  ae_confidence :: rat

text \<open>\<open>tier\<close> and \<open>desc\<close> are read with \<open>get\<close> and a default, so they are optional.\<close>

record new_entity =
  suggested_id :: ustr
  ne_name :: ustr
  ne_type :: ustr
  ne_tier :: "ustr option"
  ne_desc :: "ustr option"

text \<open>\<open>reason\<close> is read with \<open>get\<close> and a default; \<open>old\<close> is never read by the merge.\<close>

record state_change =
  sc_entity_id :: ustr
  sc_field :: ustr
  sc_old :: pyval
  sc_new :: pyval
  sc_reason :: "ustr option"

record relationship =
  rel_from :: ustr
  rel_to :: ustr
  rel_type :: ustr
  rel_description :: ustr

text \<open>
  An uncertain mention, an item of the list \<open>uncertain\<close>. A key that \<open>disambiguate\<close>
  reads is an optional field (\<open>None\<close>: the key is absent), so that every \<open>KeyError\<close>
  of that function is a branch of the model.
\<close>

record candidate =
  cand_type :: ustr
  cand_id :: "ustr option"

record uncertain_item =
  mention :: "ustr option"
  mention_context :: ustr
  candidates :: "candidate list option"
  confidence :: "rat option"

section \<open>Step B: \<open>extract_entities\<close>\<close>

text \<open>The string literals of the extraction step, by code point.\<close>

definition s_yefan :: ustr where
  \<comment> \<open>Ye Fan, the name of the entity \<open>yefan\<close>\<close>
  "s_yefan = [21494, 20961]"

definition s_ta_he :: ustr where
  \<comment> \<open>ta: he\<close>
  "s_ta_he = [20182]"

definition s_guwanqing :: ustr where
  \<comment> \<open>Gu Wanqing, the name of the entity \<open>guwanqing\<close>\<close>
  "s_guwanqing = [39038, 26202, 26228]"

definition s_ta_she :: ustr where
  \<comment> \<open>ta: she\<close>
  "s_ta_she = [22905]"

definition s_gu_nvshi :: ustr where
  \<comment> \<open>Gu nvshi: Ms Gu\<close>
  "s_gu_nvshi = [39038, 22899, 22763]"

definition t_role :: ustr where
  \<comment> \<open>juese: the entity type of characters\<close>
  "t_role = [35282, 33394]"

definition t_location :: ustr where
  \<comment> \<open>didian: the entity type of places\<close>
  "t_location = [22320, 28857]"

definition s_middle_aged_woman :: ustr where
  \<comment> \<open>zhongnian funv: middle-aged woman\<close>
  "s_middle_aged_woman = [20013, 24180, 22919, 22899]"

definition s_direct_rental :: ustr where
  \<comment> \<open>fangdong zhizu: let directly by the landlord\<close>
  "s_direct_rental = [25151, 19996, 30452, 31199]"

definition tier_decorative :: ustr where
  \<comment> \<open>zhuangshi: decorative\<close>
  "tier_decorative = [35013, 39280]"

definition tier_important :: ustr where
  \<comment> \<open>zhongyao: important\<close>
  "tier_important = [37325, 35201]"

definition desc_middle_woman :: ustr where
  "desc_middle_woman =
     [34903, 36793, 20030, 29260, 25307, 31199, 30340, 20013, 24180, 22919, 22899, 65292,
      24577, 24230, 25975, 34893]"

definition s_jingya :: ustr where
  \<comment> \<open>Jingya xiaoqu: the Jingya residential compound\<close>
  "s_jingya = [38745, 38597, 23567, 21306]"

definition desc_jingya :: ustr where
  "desc_jingya =
     [32769, 23567, 21306, 65292, 24178, 20928, 25972, 27905, 65292, 26377, 51, 21495,
      27004, 54, 48, 50, 23460]"

definition s_room_602 :: ustr where
  \<comment> \<open>602 shi: room 602\<close>
  "s_room_602 = [54, 48, 50, 23460]"

definition s_building_3 :: ustr where
  \<comment> \<open>3 hao lou: building 3\<close>
  "s_building_3 = [51, 21495, 27004]"

definition desc_room_602 :: ustr where
  "desc_room_602 = [39038, 26202, 26228, 30340, 20986, 31199, 25151, 27425, 21351]"

definition s_renting :: ustr where
  \<comment> \<open>zufang: renting a flat\<close>
  "s_renting = [31199, 25151]"

definition s_add_wechat :: ustr where
  \<comment> \<open>jia weixin: add on WeChat\<close>
  "s_add_wechat = [21152, 24494, 20449]"

definition s_nowhere_to_go :: ustr where
  "s_nowhere_to_go = [26080, 22788, 21487, 21435]"

definition s_jingya_room :: ustr where
  "s_jingya_room = [38745, 38597, 23567, 21306, 51, 21495, 27004, 54, 48, 50, 23460]"

definition s_rented_ok :: ustr where
  "s_rented_ok = [31199, 25151, 25104, 21151]"

definition s_job_hunting :: ustr where
  "s_job_hunting = [25214, 24037, 20316]"

definition s_is_renting :: ustr where
  "s_is_renting = [31199, 25151, 20013]"

definition s_became_tenant :: ustr where
  "s_became_tenant = [25104, 20026, 31199, 23458]"

definition s_let_out :: ustr where
  \<comment> \<open>zu chuqu: let out\<close>
  "s_let_out = [31199, 20986, 21435]"

definition s_repay_mortgage :: ustr where
  \<comment> \<open>huan fangdai: repay the mortgage\<close>
  "s_repay_mortgage = [36824, 25151, 36151]"

definition s_gu_property :: ustr where
  "s_gu_property = [39038, 26202, 26228, 30340, 25151, 20135]"

definition s_jingya_room_property :: ustr where
  "s_jingya_room_property =
     [38745, 38597, 23567, 21306, 51, 21495, 27004, 54, 48, 50, 23460, 40, 25151, 20135, 41]"

definition s_let_to_yefan :: ustr where
  "s_let_to_yefan = [25151, 23376, 20986, 31199, 32473, 21494, 20961]"

definition s_landlord_tenant :: ustr where
  \<comment> \<open>fangdong-zuke: landlord-tenant, the relationship type\<close>
  "s_landlord_tenant = [25151, 19996, 45, 31199, 23458]"

definition s_yefan_rents :: ustr where
  "s_yefan_rents = [21494, 20961, 31199, 20303, 39038, 26202, 26228, 30340, 25151, 23376]"

definition s_that_gentleman :: ustr where
  \<comment> \<open>na wei xiansheng: that gentleman\<close>
  "s_that_gentleman = [37027, 20301, 20808, 29983]"

definition s_address_of_yefan :: ustr where
  "s_address_of_yefan =
     [20013, 24180, 22919, 22899, 23545, 21494, 20961, 30340, 31216, 21628]"

text \<open>The dict displays of the source, in the order of its numbered steps.\<close>

definition appeared_yefan :: appeared_entity where
  "appeared_yefan =
     \<lparr>ae_id = py ''yefan'', ae_type = t_role, ae_mentions = [s_yefan, s_ta_he],
      ae_confidence = lit_0_95\<rparr>"

definition appeared_guwanqing :: appeared_entity where
  "appeared_guwanqing =
     \<lparr>ae_id = py ''guwanqing'', ae_type = t_role,
      ae_mentions = [s_guwanqing, s_ta_she, s_gu_nvshi], ae_confidence = lit_0_95\<rparr>"

definition new_middle_woman :: new_entity where
  "new_middle_woman =
     \<lparr>suggested_id = py ''middle_woman'', ne_name = s_middle_aged_woman, ne_type = t_role,
      ne_tier = Some tier_decorative, ne_desc = Some desc_middle_woman\<rparr>"

definition new_jingya_community :: new_entity where
  "new_jingya_community =
     \<lparr>suggested_id = py ''jingya_community'', ne_name = s_jingya, ne_type = t_location,
      ne_tier = Some tier_important, ne_desc = Some desc_jingya\<rparr>"

definition new_602_room :: new_entity where
  "new_602_room =
     \<lparr>suggested_id = py ''602_room'', ne_name = s_room_602, ne_type = t_location,
      ne_tier = Some tier_important, ne_desc = Some desc_room_602\<rparr>"

definition change_yefan_location :: state_change where
  "change_yefan_location =
     \<lparr>sc_entity_id = py ''yefan'', sc_field = py ''location'',
      sc_old = PStr s_nowhere_to_go, sc_new = PStr s_jingya_room,
      sc_reason = Some s_rented_ok\<rparr>"

definition change_yefan_status :: state_change where
  "change_yefan_status =
     \<lparr>sc_entity_id = py ''yefan'', sc_field = py ''status'',
      sc_old = PStr s_job_hunting, sc_new = PStr s_is_renting,
      sc_reason = Some s_became_tenant\<rparr>"

definition change_guwanqing_location :: state_change where
  "change_guwanqing_location =
     \<lparr>sc_entity_id = py ''guwanqing'', sc_field = py ''location'',
      sc_old = PStr s_gu_property, sc_new = PStr s_jingya_room_property,
      sc_reason = Some s_let_to_yefan\<rparr>"

definition rel_landlord_tenant :: relationship where
  "rel_landlord_tenant =
     \<lparr>rel_from = py ''yefan'', rel_to = py ''guwanqing'', rel_type = s_landlord_tenant,
      rel_description = s_yefan_rents\<rparr>"

definition uncertain_that_gentleman :: uncertain_item where
  "uncertain_that_gentleman =
     \<lparr>mention = Some s_that_gentleman, mention_context = s_address_of_yefan,
      candidates = Some [\<lparr>cand_type = t_role, cand_id = Some (py ''yefan'')\<rparr>],
      confidence = Some lit_0_85\<rparr>"

text \<open>
  The function appends to five lists, each append but the last two guarded by
  substring tests on the chapter text. The two dicts of known entities it fetches
  from \<open>existing_entities\<close>, and \<open>alias_to_entities\<close>, are never used.
\<close>

definition extract_entities ::
  "ustr \<Rightarrow> registry \<Rightarrow> alias_idx \<Rightarrow>
     appeared_entity list \<times> new_entity list \<times> state_change list \<times> relationship list \<times>
     uncertain_item list"
where
  "extract_entities chapter_content existing_entities alias_to_entities =
     (let entities_appeared = [];
          entities_new = [];
          state_changes = [];
          relationships_new = [];
          uncertain = [];
          entities_appeared =
            (if contains s_yefan chapter_content
             then entities_appeared @ [appeared_yefan] else entities_appeared);
          entities_appeared =
            (if contains s_guwanqing chapter_content
             then entities_appeared @ [appeared_guwanqing] else entities_appeared);
          entities_new =
            (if contains s_middle_aged_woman chapter_content \<and>
                contains s_direct_rental chapter_content
             then entities_new @ [new_middle_woman] else entities_new);
          entities_new =
            (if contains s_jingya chapter_content
             then entities_new @ [new_jingya_community] else entities_new);
          entities_new =
            (if contains s_room_602 chapter_content \<or> contains s_building_3 chapter_content
             then entities_new @ [new_602_room] else entities_new);
          state_changes =
            (if contains s_renting chapter_content \<and> contains s_add_wechat chapter_content
             then state_changes @ [change_yefan_location] @ [change_yefan_status]
             else state_changes);
          state_changes =
            (if contains s_let_out chapter_content \<or> contains s_repay_mortgage chapter_content
             then state_changes @ [change_guwanqing_location] else state_changes);
          relationships_new = relationships_new @ [rel_landlord_tenant];
          uncertain = uncertain @ [uncertain_that_gentleman]
      in (entities_appeared, entities_new, state_changes, relationships_new, uncertain))"

section \<open>Step C: \<open>disambiguate\<close>\<close>

record adoption =
  ad_mention :: ustr
  ad_adopted :: ustr
  ad_confidence :: rat
  ad_reason :: ustr

text \<open>
  The two warnings are f-strings. \<open>MediumConfidence m i c\<close> stands for the string made of
  the prefix U+4E2D U+7F6E U+4FE1 U+5EA6 U+5339 U+914D (medium-confidence match), the
  mention \<open>m\<close>, an arrow, the adopted id \<open>i\<close> and the confidence \<open>c\<close>;
  \<open>ManualReview m\<close> for the prefix U+9700 U+4EBA U+5DE5 U+786E U+8BA4 (needs manual
  confirmation) followed by the mention \<open>m\<close>.
\<close>

datatype warning = MediumConfidence ustr ustr rat | ManualReview ustr

definition reason_high :: ustr where
  \<comment> \<open>gao zhixindu zhijie caiyong: high confidence, adopted directly\<close>
  "reason_high = [39640, 32622, 20449, 24230, 30452, 25509, 37319, 29992]"

definition reason_medium :: ustr where
  \<comment> \<open>zhong zhixindu caiyong dan jilu jinggao: medium confidence, adopted with a warning\<close>
  "reason_medium =
     [20013, 32622, 20449, 24230, 37319, 29992, 20294, 35760, 24405, 35686, 21578]"

text \<open>\<open>item['mention']\<close>\<close>

definition get_mention :: "uncertain_item \<Rightarrow> py_error + ustr" where
  "get_mention item =
     (case mention item of None \<Rightarrow> Inl (KeyError (py ''mention'')) | Some m \<Rightarrow> Inr m)"

text \<open>\<open>item['candidates'][0]['id']\<close>\<close>

definition top_candidate_id :: "uncertain_item \<Rightarrow> py_error + ustr" where
  "top_candidate_id item =
     (case candidates item of
        None \<Rightarrow> Inl (KeyError (py ''candidates''))
      | Some [] \<Rightarrow> Inl IndexError
      | Some (c # _) \<Rightarrow>
          (case cand_id c of None \<Rightarrow> Inl (KeyError (py ''id'')) | Some i \<Rightarrow> Inr i))"

text \<open>\<open>item.get('confidence', 0)\<close>\<close>

definition get_confidence :: "uncertain_item \<Rightarrow> rat" where
  "get_confidence item = (case confidence item of None \<Rightarrow> 0 | Some c \<Rightarrow> c)"

text \<open>
  One pass through the body of the loop, on the lists \<open>adopted\<close> and \<open>warnings\<close> built
  so far. The dict display reads \<open>item['mention']\<close> before the candidates.
\<close>

definition disambiguate_step ::
  "uncertain_item \<Rightarrow> adoption list \<times> warning list \<Rightarrow> py_error + adoption list \<times> warning list"
where
  "disambiguate_step item acc =
     (let confidence = get_confidence item; adopted = fst acc; warnings = snd acc in
      if confidence > lit_0_8 then
        (case get_mention item of
           Inl e \<Rightarrow> Inl e
         | Inr m \<Rightarrow>
             (case top_candidate_id item of
                Inl e \<Rightarrow> Inl e
              | Inr i \<Rightarrow>
                  Inr (adopted @ [\<lparr>ad_mention = m, ad_adopted = i,
                                     ad_confidence = confidence, ad_reason = reason_high\<rparr>],
                       warnings)))
      else if confidence > lit_0_5 then
        (case get_mention item of
           Inl e \<Rightarrow> Inl e
         | Inr m \<Rightarrow>
             (case top_candidate_id item of
                Inl e \<Rightarrow> Inl e
              | Inr i \<Rightarrow>
                  Inr (adopted @ [\<lparr>ad_mention = m, ad_adopted = i,
                                     ad_confidence = confidence, ad_reason = reason_medium\<rparr>],
                       warnings @ [MediumConfidence m i confidence])))
      else
        (case get_mention item of
           Inl e \<Rightarrow> Inl e
         | Inr m \<Rightarrow> Inr (adopted, warnings @ [ManualReview m])))"

fun disambiguate_loop ::
  "uncertain_item list \<Rightarrow> adoption list \<times> warning list \<Rightarrow> py_error + adoption list \<times> warning list"
where
  "disambiguate_loop [] acc = Inr acc"
| "disambiguate_loop (item # items) acc =
     (case disambiguate_step item acc of
        Inl e \<Rightarrow> Inl e
      | Inr acc' \<Rightarrow> disambiguate_loop items acc')"

definition disambiguate :: "uncertain_item list \<Rightarrow> py_error + adoption list \<times> warning list" where
  "disambiguate uncertain = disambiguate_loop uncertain ([], [])"

section \<open>Step D: \<open>update_state\<close>\<close>

definition tier_ordinary :: ustr where
  \<comment> \<open>putong: ordinary, the default tier\<close>
  "tier_ordinary = [26222, 36890]"

definition realm_ordinary_person :: ustr where
  \<comment> \<open>putong ren: ordinary person\<close>
  "realm_ordinary_person = [26222, 36890, 20154]"

definition first_chapter_file :: ustr where
  \<comment> \<open>the path of the file of chapter 1\<close>
  "first_chapter_file = [27491, 25991, 47, 31532, 48, 48, 48, 49, 31456, 46, 109, 100]"

text \<open>The record that registration stores for a new entity.\<close>

definition fresh_entity :: "new_entity \<Rightarrow> entity" where
  "fresh_entity new_entity =
     \<lparr>ent_id = suggested_id new_entity,
      canonical_name = ne_name new_entity,
      aliases = [],
      tier = (case ne_tier new_entity of None \<Rightarrow> tier_ordinary | Some t \<Rightarrow> t),
      desc = (case ne_desc new_entity of None \<Rightarrow> [] | Some d \<Rightarrow> d),
      current =
        [(py ''realm'', PStr realm_ordinary_person), (py ''location'', PStr []),
         (py ''status'', PStr []), (py ''last_chapter'', PInt 1)],
      history = [],
      created_chapter = 1,
      first_appearance = first_chapter_file\<rparr>"

text \<open>
  The body of the first loop. The bucket of the entity's type is created empty when
  the type is not yet a key; the assignment under the id has no test before it.
\<close>

definition add_entity :: "new_entity \<Rightarrow> registry \<times> alias_idx \<Rightarrow> registry \<times> alias_idx" where
  "add_entity new_entity ra =
     (let entities = fst ra; alias_index = snd ra;
          entity_id = suggested_id new_entity;
          entity_type = ne_type new_entity;
          name = ne_name new_entity;
          bucket = (case map_of entities entity_type of None \<Rightarrow> [] | Some b \<Rightarrow> b);
          entities =
            dict_set entity_type (dict_set entity_id (fresh_entity new_entity) bucket) entities;
          known = (case map_of alias_index name of None \<Rightarrow> [] | Some l \<Rightarrow> l);
          alias_index =
            dict_set name (known @ [\<lparr>al_type = entity_type, al_id = entity_id\<rparr>]) alias_index
      in (entities, alias_index))"

fun add_entities :: "new_entity list \<Rightarrow> registry \<times> alias_idx \<Rightarrow> registry \<times> alias_idx" where
  "add_entities [] ra = ra"
| "add_entities (new_entity # rest) ra = add_entities rest (add_entity new_entity ra)"

text \<open>What the second loop does to the entity it has found.\<close>

definition change_entity :: "state_change \<Rightarrow> entity \<Rightarrow> entity" where
  "change_entity change entity =
     (let field = sc_field change;
          new_value = sc_new change;
          old_value = (case map_of (current entity) field of None \<Rightarrow> PStr [] | Some v \<Rightarrow> v)
      in entity
           \<lparr>current := dict_set (py ''last_chapter'') (PInt 1)
                         (dict_set field new_value (current entity)),
            history := history entity @
              [\<lparr>h_chapter = 1, h_field = field, h_old = old_value, h_new = new_value,
                h_reason = (case sc_reason change of None \<Rightarrow> [] | Some r \<Rightarrow> r)\<rparr>]\<rparr>)"

text \<open>
  The inner loop over the type buckets, in their order: the first bucket that has the
  id is changed and the loop is left. The first component is the flag \<open>found\<close>.
\<close>

fun find_and_change :: "state_change \<Rightarrow> registry \<Rightarrow> bool \<times> registry" where
  "find_and_change change [] = (False, [])"
| "find_and_change change ((entity_type, bucket) # rest) =
     (case map_of bucket (sc_entity_id change) of
        Some entity \<Rightarrow>
          (True,
           (entity_type, dict_set (sc_entity_id change) (change_entity change entity) bucket)
             # rest)
      | None \<Rightarrow>
          (case find_and_change change rest of
             (found, rest') \<Rightarrow> (found, (entity_type, bucket) # rest')))"

text \<open>One state change. The source never reads \<open>found\<close> after the inner loop.\<close>

definition apply_change :: "state_change \<Rightarrow> registry \<Rightarrow> registry" where
  "apply_change change entities = snd (find_and_change change entities)"

fun apply_changes :: "state_change list \<Rightarrow> registry \<Rightarrow> registry" where
  "apply_changes [] entities = entities"
| "apply_changes (change # rest) entities = apply_changes rest (apply_change change entities)"

text \<open>
  The third loop. \<open>now n\<close> is what the \<open>n\<close>-th call of \<open>datetime.now().isoformat()\<close>
  of this run returns, counting from 0.
\<close>

fun stamp_relationships :: "(nat \<Rightarrow> ustr) \<Rightarrow> nat \<Rightarrow> relationship list \<Rightarrow> relationship_edge list" where
  "stamp_relationships now n [] = []"
| "stamp_relationships now n (rel # rest) =
     \<lparr>e_from = rel_from rel, e_to = rel_to rel, e_type = rel_type rel,
      e_description = rel_description rel, e_chapter = 1, e_created_at = now n\<rparr>
       # stamp_relationships now (Suc n) rest"

text \<open>
  The whole merge. The result is both the returned state and the content written to
  the state file; a missing \<open>metadata\<close> key raises before anything is written. The
  parameter \<open>entities_appeared\<close> is not used.
\<close>

definition update_state ::
  "(nat \<Rightarrow> ustr) \<Rightarrow> state \<Rightarrow> appeared_entity list \<Rightarrow> new_entity list \<Rightarrow>
     state_change list \<Rightarrow> relationship list \<Rightarrow> py_error + state"
where
  "update_state now st entities_appeared entities_new state_changes relationships_new =
     (let entities = (case entities_v3 st of None \<Rightarrow> [] | Some r \<Rightarrow> r);
          aliases = (case alias_index st of None \<Rightarrow> [] | Some a \<Rightarrow> a);
          added = add_entities entities_new (entities, aliases);
          entities = apply_changes state_changes (fst added);
          edges = (case relationships st of None \<Rightarrow> [] | Some rs \<Rightarrow> rs)
                    @ stamp_relationships now 0 relationships_new
      in case metadata st of
           None \<Rightarrow> Inl (KeyError (py ''metadata''))
         | Some md \<Rightarrow>
             Inr \<lparr>entities_v3 = Some entities,
                  alias_index = Some (snd added),
                  relationships = Some edges,
                  metadata =
                    Some (dict_set (py ''updated_at'')
                            (PStr (now (length relationships_new)))
                            (dict_set (py ''current_chapter'') (PInt 1) md))\<rparr>)"

section \<open>Step D, continued: the relational index\<close>















section \<open>Notions used in the statements\<close>

text \<open>The entity registry of a state, and the lookup of an entity by type and id.\<close>

definition registry_of :: "state \<Rightarrow> registry" where
  "registry_of st = (case entities_v3 st of None \<Rightarrow> [] | Some r \<Rightarrow> r)"

definition lookup_entity :: "registry \<Rightarrow> ustr \<Rightarrow> ustr \<Rightarrow> entity option" where
  "lookup_entity entities entity_type entity_id =
     (case map_of entities entity_type of None \<Rightarrow> None | Some bucket \<Rightarrow> map_of bucket entity_id)"

text \<open>
  The entity that the linear scan of the second loop of \<open>update_state\<close> finds for an
  id: the first type bucket, in the order of the registry, that has the id, and the
  record stored there.
\<close>

fun locate :: "registry \<Rightarrow> ustr \<Rightarrow> (ustr \<times> entity) option" where
  "locate [] entity_id = None"
| "locate ((entity_type, bucket) # rest) entity_id =
     (case map_of bucket entity_id of
        Some entity \<Rightarrow> Some (entity_type, entity)
      | None \<Rightarrow> locate rest entity_id)"



subsection \<open>Sample values\<close>

text \<open>
  A state file that knows the character \<open>yefan\<close> only, a clock, the relationship edge
  that the merge stores at that clock, and an index without rows.
\<close>

definition sample_yefan :: entity where
  "sample_yefan =
     \<lparr>ent_id = py ''yefan'', canonical_name = s_yefan, aliases = [],
      tier = tier_important, desc = [],
      current = [(py ''location'', PStr s_nowhere_to_go)],
      history = [], created_chapter = 0, first_appearance = []\<rparr>"

definition sample_state :: state where
  "sample_state =
     \<lparr>entities_v3 = Some [(t_role, [(py ''yefan'', sample_yefan)])],
      alias_index = Some [],
      relationships = None,
      metadata = Some []\<rparr>"

definition sample_clock :: "nat \<Rightarrow> ustr" where
  "sample_clock n = py ''2024-01-01T00:00:00''"



subsection \<open>The threshold policy, as the specification words it\<close>

text \<open>
  What \<open>disambiguate\<close> reads of a mention that has a surface form and a top candidate
  with an id: the surface form, that id and the confidence score.
\<close>

definition reading :: "uncertain_item \<Rightarrow> (ustr \<times> ustr \<times> rat) option" where
  "reading item =
     (case mention item of
        None \<Rightarrow> None
      | Some m \<Rightarrow>
          (case candidates item of
             Some (c # _) \<Rightarrow>
               (case cand_id c of None \<Rightarrow> None | Some i \<Rightarrow> Some (m, i, get_confidence item))
           | _ \<Rightarrow> None))"

text \<open>
  The policy of the specification, by confidence score \<open>c\<close>: \<open>c > 0.8\<close> adopts the top
  candidate with no warning; \<open>0.5 < c \<le> 0.8\<close> adopts the top candidate and emits one
  warning; \<open>c \<le> 0.5\<close> adopts nothing and emits one needs-manual-review warning.
\<close>

definition tier_adopted :: "ustr \<times> ustr \<times> rat \<Rightarrow> adoption list" where
  "tier_adopted r =
     (case r of (m, i, c) \<Rightarrow>
        if c > lit_0_8 then
          [\<lparr>ad_mention = m, ad_adopted = i, ad_confidence = c, ad_reason = reason_high\<rparr>]
        else if lit_0_5 < c \<and> c \<le> lit_0_8 then
          [\<lparr>ad_mention = m, ad_adopted = i, ad_confidence = c, ad_reason = reason_medium\<rparr>]
        else [])"

definition tier_warnings :: "ustr \<times> ustr \<times> rat \<Rightarrow> warning list" where
  "tier_warnings r =
     (case r of (m, i, c) \<Rightarrow>
        if c > lit_0_8 then []
        else if lit_0_5 < c \<and> c \<le> lit_0_8 then [MediumConfidence m i c]
        else if c \<le> lit_0_5 then [ManualReview m]
        else [])"

section \<open>Properties of \<open>disambiguate\<close>\<close>

lemma disambiguate_step_reading:
  assumes "reading item = Some r"
  shows "disambiguate_step item (ad, ws) = Inr (ad @ tier_adopted r, ws @ tier_warnings r)"
proof -
  obtain m i c where r: "r = (m, i, c)"
    by (cases r) auto
  from assms r obtain k ks where
    m: "mention item = Some m" and ks: "candidates item = Some (k # ks)" and
    i: "cand_id k = Some i" and c: "c = get_confidence item"
    by (auto simp: reading_def split: option.splits list.splits)
  have gm: "get_mention item = Inr m"
    using m by (simp add: get_mention_def)
  have gt: "top_candidate_id item = Inr i"
    using ks i by (simp add: top_candidate_id_def)
  show ?thesis
    unfolding r
    by (simp add: disambiguate_step_def Let_def gm gt c [symmetric]
        tier_adopted_def tier_warnings_def)
qed

lemma disambiguate_loop_reading:
  assumes "map reading items = map Some rs"
  shows "disambiguate_loop items (ad, ws) =
           Inr (ad @ concat (map tier_adopted rs), ws @ concat (map tier_warnings rs))"
  using assms
proof (induction items arbitrary: rs ad ws)
  case Nil
  then show ?case by simp
next
  case (Cons item items)
  from Cons.prems obtain r rs' where rs: "rs = r # rs'" and
    r: "reading item = Some r" and rest: "map reading items = map Some rs'"
    by (cases rs) auto
  show ?case
    unfolding rs
    by (simp add: disambiguate_step_reading [OF r] Cons.IH [OF rest])
qed



text \<open>
  C2, as stated, fails: at confidence exactly \<open>0.8\<close> the test \<open>confidence > 0.8\<close> is
  false and \<open>confidence > 0.5\<close> is true, so the mention is adopted with a warning.
\<close>

theorem confidence_0_8_counterexample:
  "disambiguate
     [\<lparr>mention = Some (py ''a''), mention_context = [],
       candidates = Some [\<lparr>cand_type = [], cand_id = Some (py ''yefan'')\<rparr>],
       confidence = Some lit_0_8\<rparr>]
   = Inr ([\<lparr>ad_mention = py ''a'', ad_adopted = py ''yefan'',
             ad_confidence = lit_0_8, ad_reason = reason_medium\<rparr>],
          [MediumConfidence (py ''a'') (py ''yefan'') lit_0_8])"
  by (simp add: disambiguate_def disambiguate_step_def get_confidence_def get_mention_def
      top_candidate_id_def lit_0_8_def lit_0_5_def Let_def)

text \<open>
  C2, amended. For an uncertain mention whose confidence is exactly \<open>0.8\<close>, that has a
  surface form and a non-empty candidate list whose first entry has an id,
  \<open>disambiguate\<close> adopts the top candidate and emits exactly one warning, the
  medium-confidence one: \<open>0.8\<close> itself lies in the middle tier.
\<close>

theorem confidence_0_8_middle_tier:
  assumes "confidence item = Some lit_0_8"
    and "mention item = Some m"
    and "candidates item = Some (k # ks)"
    and "cand_id k = Some i"
  shows "disambiguate [item] =
           Inr ([\<lparr>ad_mention = m, ad_adopted = i,
                   ad_confidence = lit_0_8, ad_reason = reason_medium\<rparr>],
                [MediumConfidence m i lit_0_8])"
  using assms
  by (simp add: disambiguate_def disambiguate_step_def get_confidence_def get_mention_def
      top_candidate_id_def lit_0_8_def lit_0_5_def Let_def)

theorem confidence_0_8_middle_tier_witness:
  "disambiguate
     [\<lparr>mention = Some (py ''b''), mention_context = [],
       candidates = Some [\<lparr>cand_type = [], cand_id = Some (py ''guwanqing'')\<rparr>,
                          \<lparr>cand_type = [], cand_id = None\<rparr>],
       confidence = Some lit_0_8\<rparr>]
   = Inr ([\<lparr>ad_mention = py ''b'', ad_adopted = py ''guwanqing'',
             ad_confidence = lit_0_8, ad_reason = reason_medium\<rparr>],
          [MediumConfidence (py ''b'') (py ''guwanqing'') lit_0_8])"
  using confidence_0_8_middle_tier
    [of "\<lparr>mention = Some (py ''b''), mention_context = [],
          candidates = Some [\<lparr>cand_type = [], cand_id = Some (py ''guwanqing'')\<rparr>,
                             \<lparr>cand_type = [], cand_id = None\<rparr>],
          confidence = Some lit_0_8\<rparr>"
        "py ''b''" "\<lparr>cand_type = [], cand_id = Some (py ''guwanqing'')\<rparr>"
        "[\<lparr>cand_type = [], cand_id = None\<rparr>]" "py ''guwanqing''"]
  by simp

text \<open>
  With an empty candidate list and a confidence above \<open>0.5\<close>, the subscript
  \<open>item['candidates'][0]\<close> raises \<open>IndexError\<close>.
\<close>

lemma disambiguate_empty_candidates_above_half:
  assumes "candidates item = Some []" and "mention item = Some m"
    and "get_confidence item > lit_0_5"
  shows "disambiguate [item] = Inl IndexError"
  using assms
  by (simp add: disambiguate_def disambiguate_step_def get_mention_def
      top_candidate_id_def Let_def)

text \<open>
  The loop on a list in two parts, and the body of the loop on a mention of the
  lowest tier, whatever stands in place of its candidate list.
\<close>

lemma disambiguate_loop_append:
  "disambiguate_loop (items @ rest) acc =
     (case disambiguate_loop items acc of
        Inl e \<Rightarrow> Inl e
      | Inr acc' \<Rightarrow> disambiguate_loop rest acc')"
  by (induction items arbitrary: acc) (auto split: sum.splits)

lemma disambiguate_step_low:
  assumes "mention item = Some m" and "get_confidence item \<le> lit_0_5"
  shows "disambiguate_step (item\<lparr>candidates := cs\<rparr>) (ad, ws) = Inr (ad, ws @ [ManualReview m])"
proof -
  have "\<not> get_confidence item > lit_0_8"
    using assms(2) by (simp add: lit_0_8_def lit_0_5_def)
  moreover have "\<not> get_confidence item > lit_0_5"
    using assms(2) by simp
  ultimately show ?thesis
    using assms(1)
    by (simp add: disambiguate_step_def get_mention_def get_confidence_def Let_def)
qed

lemma disambiguate_low_anywhere:
  assumes "mention item = Some m" and "get_confidence item \<le> lit_0_5"
    and "disambiguate before = Inr (ad, ws)"
  shows "disambiguate (before @ item\<lparr>candidates := cs\<rparr> # rest) =
           disambiguate_loop rest (ad, ws @ [ManualReview m])"
  using assms(3)
  by (simp add: disambiguate_def disambiguate_loop_append
      disambiguate_step_low [OF assms(1,2)])




text \<open>
  C10. An uncertain mention without the key \<open>confidence\<close> (and with a surface form)
  is treated as having confidence 0, wherever it stands in the list: after the
  mentions before it, which gave the lists \<open>ad\<close> and \<open>ws\<close>, \<open>disambiguate\<close> adopts
  nothing, emits the needs-manual-review warning and goes on with the mentions after
  it (where those have a surface form and a top candidate with an id, the result is
  written out). This holds whatever stands in place of the candidate list \<open>cs\<close>: a
  list, the empty list (\<open>Some []\<close>) or no key at all (\<open>None\<close>). The candidate list is
  therefore never read and no error arises from it.
\<close>

theorem missing_confidence_manual_review:
  assumes "confidence item = None" and "mention item = Some m"
    and "disambiguate before = Inr (ad, ws)"
  shows "disambiguate (before @ item\<lparr>candidates := cs\<rparr> # rest) =
           disambiguate_loop rest (ad, ws @ [ManualReview m])
         \<and> (map reading rest = map Some rs \<longrightarrow>
              disambiguate (before @ item\<lparr>candidates := cs\<rparr> # rest) =
                Inr (ad @ concat (map tier_adopted rs),
                     ws @ [ManualReview m] @ concat (map tier_warnings rs)))"
proof -
  have "get_confidence item \<le> lit_0_5"
    using assms(1) by (simp add: get_confidence_def lit_0_5_def)
  from disambiguate_low_anywhere [OF assms(2) this assms(3), of cs rest]
  show ?thesis
    by (auto simp: disambiguate_loop_reading)
qed

theorem missing_confidence_manual_review_witness:
  "disambiguate
     [\<lparr>mention = Some (py ''a''), mention_context = [],
       candidates = Some [\<lparr>cand_type = [], cand_id = Some (py ''yefan'')\<rparr>],
       confidence = Some lit_0_85\<rparr>]
   = Inr ([\<lparr>ad_mention = py ''a'', ad_adopted = py ''yefan'',
             ad_confidence = lit_0_85, ad_reason = reason_high\<rparr>], [])
   \<and> disambiguate
     [\<lparr>mention = Some (py ''a''), mention_context = [],
       candidates = Some [\<lparr>cand_type = [], cand_id = Some (py ''yefan'')\<rparr>],
       confidence = Some lit_0_85\<rparr>,
      \<lparr>mention = Some (py ''c''), mention_context = [],
       candidates = None, confidence = None\<rparr>,
      \<lparr>mention = Some (py ''b''), mention_context = [],
       candidates = Some [\<lparr>cand_type = [], cand_id = Some (py ''guwanqing'')\<rparr>],
       confidence = Some (3 / 4)\<rparr>]
   = Inr ([\<lparr>ad_mention = py ''a'', ad_adopted = py ''yefan'',
             ad_confidence = lit_0_85, ad_reason = reason_high\<rparr>,
           \<lparr>ad_mention = py ''b'', ad_adopted = py ''guwanqing'',
             ad_confidence = 3 / 4, ad_reason = reason_medium\<rparr>],
          [ManualReview (py ''c''), MediumConfidence (py ''b'') (py ''guwanqing'') (3 / 4)])
   \<and> disambiguate
     [\<lparr>mention = Some (py ''a''), mention_context = [],
       candidates = Some [\<lparr>cand_type = [], cand_id = Some (py ''yefan'')\<rparr>],
       confidence = Some lit_0_85\<rparr>,
      \<lparr>mention = Some (py ''c''), mention_context = [],
       candidates = Some [], confidence = None\<rparr>,
      \<lparr>mention = Some (py ''b''), mention_context = [],
       candidates = Some [\<lparr>cand_type = [], cand_id = Some (py ''guwanqing'')\<rparr>],
       confidence = Some (3 / 4)\<rparr>]
   = Inr ([\<lparr>ad_mention = py ''a'', ad_adopted = py ''yefan'',
             ad_confidence = lit_0_85, ad_reason = reason_high\<rparr>,
           \<lparr>ad_mention = py ''b'', ad_adopted = py ''guwanqing'',
             ad_confidence = 3 / 4, ad_reason = reason_medium\<rparr>],
          [ManualReview (py ''c''), MediumConfidence (py ''b'') (py ''guwanqing'') (3 / 4)])"
proof -
  let ?a = "\<lparr>mention = Some (py ''a''), mention_context = [],
       candidates = Some [\<lparr>cand_type = [], cand_id = Some (py ''yefan'')\<rparr>],
       confidence = Some lit_0_85\<rparr>"
  let ?c = "\<lparr>mention = Some (py ''c''), mention_context = [],
       candidates = Some [\<lparr>cand_type = [], cand_id = Some (py ''yefan'')\<rparr>],
       confidence = None\<rparr>"
  let ?b = "\<lparr>mention = Some (py ''b''), mention_context = [],
       candidates = Some [\<lparr>cand_type = [], cand_id = Some (py ''guwanqing'')\<rparr>],
       confidence = Some (3 / 4)\<rparr>"
  have before: "disambiguate [?a] =
      Inr ([\<lparr>ad_mention = py ''a'', ad_adopted = py ''yefan'',
              ad_confidence = lit_0_85, ad_reason = reason_high\<rparr>], [])"
    by (simp add: disambiguate_def disambiguate_step_def get_confidence_def get_mention_def
        top_candidate_id_def lit_0_8_def lit_0_85_def Let_def)
  have rest: "map reading [?b] = map Some [(py ''b'', py ''guwanqing'', 3 / 4)]"
    by (simp add: reading_def get_confidence_def)
  have tiers: "tier_adopted (py ''b'', py ''guwanqing'', 3 / 4) =
        [\<lparr>ad_mention = py ''b'', ad_adopted = py ''guwanqing'',
           ad_confidence = 3 / 4, ad_reason = reason_medium\<rparr>]"
    "tier_warnings (py ''b'', py ''guwanqing'', 3 / 4) =
        [MediumConfidence (py ''b'') (py ''guwanqing'') (3 / 4)]"
    by (simp_all add: tier_adopted_def tier_warnings_def lit_0_8_def lit_0_5_def)
  have absent: "confidence ?c = None" and named: "mention ?c = Some (py ''c'')"
    by simp_all
  note inst = missing_confidence_manual_review
    [where rest = "[?b]" and rs = "[(py ''b'', py ''guwanqing'', 3 / 4)]",
     OF absent named before]
  note no_key = inst [where cs = None, THEN conjunct2, THEN mp, OF rest]
  note no_entry = inst [where cs = "Some []", THEN conjunct2, THEN mp, OF rest]
  from no_key no_entry tiers before show ?thesis
    by simp
qed

section \<open>Numbers, strings and dicts\<close>

text \<open>
  The three literals that are not exact are within half a unit in the last place
  (\<open>2\<close> to the power \<open>-54\<close>) of their decimal values, and \<open>0.8\<close> lies above
  four fifths.
\<close>

lemma literals_rounded:
  "\<bar>lit_0_8 - 8 / 10\<bar> \<le> 1 / 2 ^ 54"
  "\<bar>lit_0_85 - 85 / 100\<bar> \<le> 1 / 2 ^ 54"
  "\<bar>lit_0_95 - 95 / 100\<bar> \<le> 1 / 2 ^ 54"
  "8 / 10 < lit_0_8"
  by (simp_all add: lit_0_8_def lit_0_85_def lit_0_95_def)

lemma py_eq_iff [simp]: "py a = py b \<longleftrightarrow> a = b"
  by (simp add: py_def inj_map_eq_map inj_on_def)

text \<open>\<open>contains\<close> is the substring relation.\<close>

lemma starts_with_iff: "starts_with needle hay \<longleftrightarrow> (\<exists>suf. hay = needle @ suf)"
  by (induction needle hay rule: starts_with.induct) auto

lemma contains_iff: "contains needle hay \<longleftrightarrow> (\<exists>pre suf. hay = pre @ needle @ suf)"
proof (induction hay)
  case Nil
  then show ?case by auto
next
  case (Cons c cs)
  show ?case
  proof
    assume "contains needle (c # cs)"
    then consider "starts_with needle (c # cs)" | "contains needle cs"
      by auto
    then show "\<exists>pre suf. c # cs = pre @ needle @ suf"
    proof cases
      case 1
      then obtain suf where "c # cs = [] @ needle @ suf"
        by (auto simp: starts_with_iff)
      then show ?thesis by blast
    next
      case 2
      then obtain pre suf where "cs = pre @ needle @ suf"
        using Cons.IH by blast
      then have "c # cs = (c # pre) @ needle @ suf"
        by simp
      then show ?thesis by blast
    qed
  next
    assume "\<exists>pre suf. c # cs = pre @ needle @ suf"
    then obtain pre suf where eq: "c # cs = pre @ needle @ suf"
      by blast
    show "contains needle (c # cs)"
    proof (cases pre)
      case Nil
      with eq have "starts_with needle (c # cs)"
        by (auto simp: starts_with_iff)
      then show ?thesis by simp
    next
      case (Cons p ps)
      with eq have "cs = ps @ needle @ suf"
        by simp
      then have "contains needle cs"
        using Cons.IH by blast
      then show ?thesis by simp
    qed
  qed
qed

lemma map_of_dict_set:
  "map_of (dict_set k v d) k' = (if k' = k then Some v else map_of d k')"
  by (induction d) auto





section \<open>Properties of \<open>extract_entities\<close>\<close>

lemmas phrase_defs =
  s_yefan_def s_guwanqing_def s_middle_aged_woman_def s_direct_rental_def s_jingya_def
  s_room_602_def s_building_3_def s_renting_def s_add_wechat_def s_let_out_def
  s_repay_mortgage_def

lemma extract_fixed_outputs:
  "fst (snd (snd (snd (extract_entities chapter_content existing_entities alias_to_entities))))
     = [rel_landlord_tenant]
   \<and> snd (snd (snd (snd (extract_entities chapter_content existing_entities alias_to_entities))))
     = [uncertain_that_gentleman]"
  by (simp add: extract_entities_def Let_def)

lemma extract_of_empty:
  "extract_entities [] existing_entities alias_to_entities =
     ([], [], [], [rel_landlord_tenant], [uncertain_that_gentleman])"
  by (simp add: extract_entities_def phrase_defs)

text \<open>
  C7, as stated, fails: on the empty chapter text the extraction returns one
  relationship and one uncertain mention.
\<close>

theorem extract_empty_text_counterexample:
  "extract_entities [] [] [] =
     ([], [], [], [rel_landlord_tenant], [uncertain_that_gentleman])"
  by (simp add: extract_entities_def phrase_defs)

text \<open>
  C7, amended. If the chapter text is empty, \<open>extract_entities\<close> does not fail and
  returns no appeared entities, no new entities and no state changes; it still
  returns the relationship edge from \<open>yefan\<close> to \<open>guwanqing\<close> and the uncertain
  mention, the two proposals that it returns for every chapter text.
\<close>

theorem extract_empty_text:
  "extract_entities [] existing_entities alias_to_entities =
     ([], [], [], [rel_landlord_tenant], [uncertain_that_gentleman])
   \<and> fst (snd (snd (snd (extract_entities chapter_content existing_entities alias_to_entities))))
       = [rel_landlord_tenant]
   \<and> snd (snd (snd (snd (extract_entities chapter_content existing_entities alias_to_entities))))
       = [uncertain_that_gentleman]"
  using extract_of_empty extract_fixed_outputs by simp

text \<open>
  C8, as stated, fails: a chapter text that has the six phrases and also the phrases
  for the middle-aged woman, the direct rental and the letting out yields three new
  entities and three state changes, the third for \<open>guwanqing\<close>.
\<close>

theorem extract_scenario_counterexample:
  "map suggested_id (fst (snd (extract_entities
     (s_yefan @ s_guwanqing @ s_jingya @ s_room_602 @ s_renting @ s_add_wechat @
      s_middle_aged_woman @ s_direct_rental @ s_let_out) [] [])))
     = [py ''middle_woman'', py ''jingya_community'', py ''602_room'']
   \<and> map sc_entity_id (fst (snd (snd (extract_entities
     (s_yefan @ s_guwanqing @ s_jingya @ s_room_602 @ s_renting @ s_add_wechat @
      s_middle_aged_woman @ s_direct_rental @ s_let_out) [] []))))
     = [py ''yefan'', py ''yefan'', py ''guwanqing'']"
  by (simp add: extract_entities_def phrase_defs new_middle_woman_def new_jingya_community_def
      new_602_room_def change_yefan_location_def change_yefan_status_def
      change_guwanqing_location_def)

text \<open>
  C8, amended. For every chapter text that contains the two names and the four
  phrases, \<open>extract_entities\<close> yields exactly the two appeared entities \<open>yefan\<close> and
  \<open>guwanqing\<close>; the new entities \<open>jingya_community\<close> and \<open>602_room\<close>, preceded by
  \<open>middle_woman\<close> exactly when the text also contains the phrases for the middle-aged
  woman and the direct rental; the two state changes of \<open>yefan\<close>, followed by one of
  \<open>guwanqing\<close> exactly when the text also contains the phrase for letting out or for
  repaying the mortgage; and exactly the one relationship edge from \<open>yefan\<close> to
  \<open>guwanqing\<close> of the landlord-tenant type.
\<close>

theorem extract_scenario:
  assumes "contains s_yefan chapter_content" and "contains s_guwanqing chapter_content"
    and "contains s_jingya chapter_content" and "contains s_room_602 chapter_content"
    and "contains s_renting chapter_content" and "contains s_add_wechat chapter_content"
  shows "extract_entities chapter_content existing_entities alias_to_entities =
     ([appeared_yefan, appeared_guwanqing],
      (if contains s_middle_aged_woman chapter_content \<and>
          contains s_direct_rental chapter_content
       then [new_middle_woman] else []) @ [new_jingya_community, new_602_room],
      [change_yefan_location, change_yefan_status] @
      (if contains s_let_out chapter_content \<or> contains s_repay_mortgage chapter_content
       then [change_guwanqing_location] else []),
      [rel_landlord_tenant],
      [uncertain_that_gentleman])"
  using assms by (simp add: extract_entities_def)

theorem extract_scenario_witness:
  "extract_entities
     (s_yefan @ s_guwanqing @ s_jingya @ s_room_602 @ s_renting @ s_add_wechat) [] [] =
     ([appeared_yefan, appeared_guwanqing],
      [new_jingya_community, new_602_room],
      [change_yefan_location, change_yefan_status],
      [rel_landlord_tenant],
      [uncertain_that_gentleman])"
  using extract_scenario
    [of "s_yefan @ s_guwanqing @ s_jingya @ s_room_602 @ s_renting @ s_add_wechat" "[]" "[]"]
  by (simp add: phrase_defs)

section \<open>Properties of \<open>update_state\<close>\<close>

subsection \<open>Registration\<close>

lemma lookup_add_entity:
  "lookup_entity (fst (add_entity ne (entities, ai))) (ne_type ne) (suggested_id ne)
     = Some (fresh_entity ne)"
  by (simp add: add_entity_def lookup_entity_def Let_def map_of_dict_set)










subsection \<open>State changes\<close>


lemma history_change_entity:
  "history (change_entity ch e) = history e @
     [\<lparr>h_chapter = 1, h_field = sc_field ch,
       h_old = (case map_of (current e) (sc_field ch) of None \<Rightarrow> PStr [] | Some v \<Rightarrow> v),
       h_new = sc_new ch,
       h_reason = (case sc_reason ch of None \<Rightarrow> [] | Some r \<Rightarrow> r)\<rparr>]"
  by (simp add: change_entity_def Let_def)

lemma current_change_entity:
  "map_of (current (change_entity ch e)) (sc_field ch) =
     Some (if sc_field ch = py ''last_chapter'' then PInt 1 else sc_new ch)"
  by (simp add: change_entity_def Let_def map_of_dict_set)




lemma find_and_change_located:
  assumes "locate entities (sc_entity_id ch) = Some (t, e)"
  shows "fst (find_and_change ch entities) \<and>
         locate (snd (find_and_change ch entities)) (sc_entity_id ch)
           = Some (t, change_entity ch e)"
  using assms
  by (induction entities)
    (auto simp: map_of_dict_set split: option.splits prod.splits)

text \<open>
  A state change whose id is in no bucket leaves the flag \<open>found\<close> false and the
  registry as it was; nothing is raised and nothing is recorded.
\<close>

lemma find_and_change_missing:
  assumes "locate entities (sc_entity_id ch) = None"
  shows "find_and_change ch entities = (False, entities)"
  using assms
  by (induction entities) (auto split: option.splits prod.splits)

lemma locate_find_and_change_other:
  assumes "k \<noteq> sc_entity_id ch"
  shows "locate (snd (find_and_change ch entities)) k = locate entities k"
  using assms
  by (induction entities)
    (auto simp: map_of_dict_set split: option.splits prod.splits)

lemma lookup_find_and_change_other:
  assumes "k \<noteq> sc_entity_id ch"
  shows "lookup_entity (snd (find_and_change ch entities)) t k = lookup_entity entities t k"
  using assms
  by (induction entities)
    (auto simp: lookup_entity_def map_of_dict_set split: option.splits prod.splits)

lemma lookup_find_and_change_history:
  assumes "lookup_entity entities t k = Some e"
  shows "\<exists>e' hs. lookup_entity (snd (find_and_change ch entities)) t k = Some e'
           \<and> history e' = history e @ hs"
  using assms
proof (induction entities)
  case Nil
  then show ?case by (simp add: lookup_entity_def)
next
  case (Cons p entities)
  obtain t0 b where p: "p = (t0, b)" by (cases p)
  show ?case
  proof (cases "map_of b (sc_entity_id ch)")
    case None
    show ?thesis
    proof (cases "t = t0")
      case True
      with Cons.prems None show ?thesis
        by (auto simp: p lookup_entity_def split: prod.splits)
    next
      case False
      with Cons.prems have "lookup_entity entities t k = Some e"
        by (simp add: p lookup_entity_def)
      from Cons.IH [OF this] False None show ?thesis
        by (auto simp: p lookup_entity_def split: prod.splits)
    qed
  next
    case (Some e0)
    show ?thesis
    proof (cases "t = t0 \<and> k = sc_entity_id ch")
      case True
      with Cons.prems Some have "e0 = e"
        by (simp add: p lookup_entity_def)
      with True Some show ?thesis
        by (simp add: p lookup_entity_def map_of_dict_set history_change_entity)
    next
      case False
      with Cons.prems Some show ?thesis
        by (auto simp: p lookup_entity_def map_of_dict_set)
    qed
  qed
qed

lemma lookup_apply_changes_history:
  assumes "lookup_entity entities t k = Some e"
  shows "\<exists>e' hs. lookup_entity (apply_changes chs entities) t k = Some e'
           \<and> history e' = history e @ hs"
  using assms
proof (induction chs arbitrary: entities e)
  case Nil
  then show ?case by simp
next
  case (Cons ch chs)
  from lookup_find_and_change_history [OF Cons.prems, of ch]
  obtain e1 hs1 where
    e1: "lookup_entity (apply_change ch entities) t k = Some e1" and
    h1: "history e1 = history e @ hs1"
    by (auto simp: apply_change_def)
  from Cons.IH [OF e1] obtain e2 hs2 where
    "lookup_entity (apply_changes chs (apply_change ch entities)) t k = Some e2" and
    "history e2 = history e1 @ hs2"
    by blast
  with h1 show ?case by simp
qed


subsection \<open>The whole merge\<close>










lemma locate_apply_changes:
  assumes "locate entities k = Some (t, e)"
  shows "locate (apply_changes chs entities) k =
           Some (t, foldl (\<lambda>x c. change_entity c x) e (filter (\<lambda>c. sc_entity_id c = k) chs))"
  using assms
proof (induction chs arbitrary: entities e)
  case Nil
  then show ?case by simp
next
  case (Cons ch chs)
  show ?case
  proof (cases "sc_entity_id ch = k")
    case True
    with Cons.prems have
      "locate (apply_change ch entities) k = Some (t, change_entity ch e)"
      using find_and_change_located [of entities ch t e] by (simp add: apply_change_def)
    from Cons.IH [OF this] True show ?thesis
      by simp
  next
    case False
    then have "locate (apply_change ch entities) k = Some (t, e)"
      using Cons.prems locate_find_and_change_other [of k ch entities]
      by (simp add: apply_change_def)
    from Cons.IH [OF this] False show ?thesis
      by simp
  qed
qed

lemma lookup_find_and_change_other_type:
  assumes "locate entities (sc_entity_id ch) = Some (t, e)" and "ta \<noteq> t"
  shows "lookup_entity (snd (find_and_change ch entities)) ta k = lookup_entity entities ta k"
  using assms
  by (induction entities)
    (auto simp: lookup_entity_def split: option.splits prod.splits)

lemma current_change_entity_all:
  "map_of (current (change_entity ch e)) f =
     (if f = py ''last_chapter'' then Some (PInt 1)
      else if f = sc_field ch then Some (sc_new ch)
      else map_of (current e) f)"
  by (simp add: change_entity_def Let_def map_of_dict_set)

lemma change_entity_rest:
  "(change_entity ch e)\<lparr>current := current e, history := history e\<rparr> = e"
  by (simp add: change_entity_def Let_def)



subsection \<open>Claims on the merge\<close>




text \<open>
  C5, as stated, fails: the history of an existing entity is removed when a merge
  registers its id again. Before the merge the entity \<open>602_room\<close> has one history
  record; after it, none.
\<close>

theorem history_reset_counterexample:
  "map_option history
     (lookup_entity
        [(t_location, [(py ''602_room'',
           change_entity change_guwanqing_location (fresh_entity new_602_room))])]
        t_location (py ''602_room''))
     = Some [\<lparr>h_chapter = 1, h_field = py ''location'', h_old = PStr [],
               h_new = PStr s_jingya_room_property, h_reason = s_let_to_yefan\<rparr>]
   \<and> (case update_state sample_clock
          \<lparr>entities_v3 = Some [(t_location, [(py ''602_room'',
             change_entity change_guwanqing_location (fresh_entity new_602_room))])],
           alias_index = Some [], relationships = Some [], metadata = Some []\<rparr>
          [] [new_602_room] [] []
       of Inl err \<Rightarrow> None
        | Inr st \<Rightarrow> map_option history (lookup_entity (registry_of st) t_location (py ''602_room'')))
     = Some []"
  by (simp add: update_state_def lookup_entity_def add_entity_def registry_of_def Let_def
      change_entity_def fresh_entity_def new_602_room_def change_guwanqing_location_def)

text \<open>
  C5, amended. A state change whose entity the merge finds (the first type bucket
  that has the id) appends exactly one history record (chapter 1, field, old, new,
  reason) at the end of that entity's history, where old is the entity's previous
  current value of the field (the empty string when the field was not set). It sets
  \<open>current[field]\<close> to the new value and then \<open>current['last_chapter']\<close> to 1, as
  after every change, and leaves every other key of \<open>current\<close> and everything else
  of the entity as it was. It leaves the entities with another id, and those in the
  buckets of another type, as they were. After the state changes of a merge, an
  entity that the merge finds is the entity before them with the changes for its id
  applied in their order; and the state changes never remove or rewrite a history
  record: the history of every entity before them is a prefix of its history after
  them. Registration of an id that is already present replaces the record, its
  history included: the history is empty after it.
\<close>

theorem state_change_appends_one_record:
  "(locate entities (sc_entity_id ch) = Some (t, e) \<longrightarrow>
      locate (apply_change ch entities) (sc_entity_id ch) = Some (t, change_entity ch e))
   \<and> history (change_entity ch e) = history e @
        [\<lparr>h_chapter = 1, h_field = sc_field ch,
          h_old = (case map_of (current e) (sc_field ch) of None \<Rightarrow> PStr [] | Some v \<Rightarrow> v),
          h_new = sc_new ch,
          h_reason = (case sc_reason ch of None \<Rightarrow> [] | Some r \<Rightarrow> r)\<rparr>]
   \<and> map_of (current (change_entity ch e)) f =
        (if f = py ''last_chapter'' then Some (PInt 1)
         else if f = sc_field ch then Some (sc_new ch)
         else map_of (current e) f)
   \<and> (change_entity ch e)\<lparr>current := current e, history := history e\<rparr> = e
   \<and> (ka \<noteq> sc_entity_id ch \<longrightarrow>
        lookup_entity (apply_change ch entities) ta ka = lookup_entity entities ta ka)
   \<and> (locate entities (sc_entity_id ch) = Some (t, e) \<and> tb \<noteq> t \<longrightarrow>
        lookup_entity (apply_change ch entities) tb kb = lookup_entity entities tb kb)
   \<and> (locate entities kc = Some (tc, ec) \<longrightarrow>
        locate (apply_changes chs entities) kc =
          Some (tc, foldl (\<lambda>x c. change_entity c x) ec
                      (filter (\<lambda>c. sc_entity_id c = kc) chs)))
   \<and> (lookup_entity entities td kd = Some ed \<longrightarrow>
        (\<exists>e' hs. lookup_entity (apply_changes chs entities) td kd = Some e'
                  \<and> history e' = history ed @ hs))
   \<and> map_option history
        (lookup_entity (fst (add_entity ne (known, ai))) (ne_type ne) (suggested_id ne))
      = Some []"
  using find_and_change_located [of entities ch t e]
    lookup_find_and_change_other [of ka ch entities ta]
    lookup_find_and_change_other_type [of entities ch t e tb kb]
    locate_apply_changes [of entities kc tc ec chs]
    lookup_apply_changes_history [of entities td kd ed chs]
  by (simp add: apply_change_def history_change_entity current_change_entity_all
      change_entity_rest lookup_add_entity fresh_entity_def)

theorem state_change_appends_one_record_witness:
  "locate [(t_role, [(py ''yefan'', sample_yefan)])] (py ''yefan'') = Some (t_role, sample_yefan)
   \<and> locate (apply_change change_yefan_location [(t_role, [(py ''yefan'', sample_yefan)])])
         (py ''yefan'')
       = Some (t_role, change_entity change_yefan_location sample_yefan)
   \<and> history (change_entity change_yefan_location sample_yefan)
       = [\<lparr>h_chapter = 1, h_field = py ''location'', h_old = PStr s_nowhere_to_go,
            h_new = PStr s_jingya_room, h_reason = s_rented_ok\<rparr>]
   \<and> map_of (current (change_entity change_yefan_location sample_yefan)) (py ''location'')
       = Some (PStr s_jingya_room)
   \<and> map_of (current (change_entity change_yefan_location sample_yefan)) (py ''last_chapter'')
       = Some (PInt 1)
   \<and> lookup_entity (apply_change change_yefan_location [(t_role, [(py ''yefan'', sample_yefan)])])
         t_role (py ''guwanqing'')
       = lookup_entity [(t_role, [(py ''yefan'', sample_yefan)])] t_role (py ''guwanqing'')
   \<and> t_location \<noteq> t_role
   \<and> lookup_entity (apply_change change_yefan_location [(t_role, [(py ''yefan'', sample_yefan)])])
         t_location (py ''yefan'')
       = lookup_entity [(t_role, [(py ''yefan'', sample_yefan)])] t_location (py ''yefan'')
   \<and> locate (apply_changes [change_yefan_location, change_guwanqing_location,
                              change_yefan_status]
                [(t_role, [(py ''yefan'', sample_yefan)])]) (py ''yefan'')
       = Some (t_role, change_entity change_yefan_status
                         (change_entity change_yefan_location sample_yefan))
   \<and> lookup_entity [(t_role, [(py ''yefan'', sample_yefan)])] t_role (py ''yefan'')
       = Some sample_yefan
   \<and> (\<exists>e' hs. lookup_entity
                 (apply_changes [change_yefan_location, change_guwanqing_location,
                                 change_yefan_status]
                    [(t_role, [(py ''yefan'', sample_yefan)])])
                 t_role (py ''yefan'') = Some e'
               \<and> history e' = history sample_yefan @ hs)
   \<and> map_option history
        (lookup_entity
           (fst (add_entity new_jingya_community
              ([(t_location, [(py ''jingya_community'',
                   change_entity change_guwanqing_location
                     (fresh_entity new_jingya_community))])], [])))
           t_location (py ''jingya_community''))
      = Some []"
proof -
  let ?R = "[(t_role, [(py ''yefan'', sample_yefan)])]"
  let ?chs = "[change_yefan_location, change_guwanqing_location, change_yefan_status]"
  have ids: "sc_entity_id change_yefan_location = py ''yefan''"
    "sc_entity_id change_yefan_status = py ''yefan''"
    "sc_entity_id change_guwanqing_location = py ''guwanqing''"
    by (simp_all add: change_yefan_location_def change_yefan_status_def
        change_guwanqing_location_def)
  have parts: "sc_field change_yefan_location = py ''location''"
    "sc_new change_yefan_location = PStr s_jingya_room"
    "sc_reason change_yefan_location = Some s_rented_ok"
    by (simp_all add: change_yefan_location_def)
  have sample: "history sample_yefan = []"
    "current sample_yefan = [(py ''location'', PStr s_nowhere_to_go)]"
    by (simp_all add: sample_yefan_def)
  have new: "ne_type new_jingya_community = t_location"
    "suggested_id new_jingya_community = py ''jingya_community''"
    by (simp_all add: new_jingya_community_def)
  have h1: "locate ?R (py ''yefan'') = Some (t_role, sample_yefan)"
    by simp
  have h2: "t_location \<noteq> t_role"
    by (simp add: t_location_def t_role_def)
  have h3: "lookup_entity ?R t_role (py ''yefan'') = Some sample_yefan"
    by (simp add: lookup_entity_def)
  note inst = state_change_appends_one_record
    [where entities = ?R and ch = change_yefan_location and t = t_role and e = sample_yefan
       and ka = "py ''guwanqing''" and ta = t_role
       and tb = t_location and kb = "py ''yefan''"
       and kc = "py ''yefan''" and tc = t_role and ec = sample_yefan
       and td = t_role and kd = "py ''yefan''" and ed = sample_yefan
       and chs = ?chs and ne = new_jingya_community
       and known = "[(t_location, [(py ''jingya_community'',
                   change_entity change_guwanqing_location
                     (fresh_entity new_jingya_community))])]"
       and ai = "[]"]
  from inst [where f = "py ''location''"] inst [where f = "py ''last_chapter''"] h1 h2 h3
  show ?thesis
    by (simp add: ids parts sample new)
qed

text \<open>
  C6, at the failing input: the state knows \<open>yefan\<close> only and the state change is
  for \<open>guwanqing\<close>. The scan leaves the flag \<open>found\<close> false and the merge returns
  normally, with the registry as it was: the miss is neither raised nor recorded.
\<close>

theorem unknown_entity_change_dropped:
  "find_and_change change_guwanqing_location [(t_role, [(py ''yefan'', sample_yefan)])]
     = (False, [(t_role, [(py ''yefan'', sample_yefan)])])
   \<and> update_state sample_clock sample_state [] [] [change_guwanqing_location] []
     = Inr \<lparr>entities_v3 = Some [(t_role, [(py ''yefan'', sample_yefan)])],
            alias_index = Some [],
            relationships = Some [],
            metadata = Some [(py ''current_chapter'', PInt 1),
                             (py ''updated_at'', PStr (py ''2024-01-01T00:00:00''))]\<rparr>"
  by (simp add: update_state_def sample_state_def sample_clock_def apply_change_def
      change_guwanqing_location_def)




end
